theory Spec2Isabelle
  imports Main "HOL-Library.Word"
begin

section \<open>The engine actor of reddit.go\<close>

text \<open>
  The development embeds \<^verbatim>\<open>actor-model/reddit.go\<close>: the state owned by
  \<^verbatim>\<open>EngineActor\<close> and its method \<^verbatim>\<open>Receive\<close>, one equation per case of the
  type switch. A request's \<^verbatim>\<open>Reply\<close> channel receives exactly one string; here the
  string is returned together with the new state. The mutex is not modelled: the actor
  handles one message at a time.

  Go's \<^verbatim>\<open>int\<close> is taken to be 64 bits wide (as on amd64 and arm64): \<open>+\<close> wraps
  around and comparisons read the word as two's complement (\<open>sint\<close>).
  Go strings are byte sequences, as \<open>string\<close> is.
\<close>

type_synonym int64 = "64 word"

subsection \<open>Actor state\<close>

record User =
  ID :: int64
  Username :: string
  Inbox :: "string list"

record Post =
  ID :: int64
  UserID :: int64
  Subreddit :: string
  Content :: string
  Comments :: "string list"

record Subreddit =
  Name :: string
  Users :: "int64 \<rightharpoonup> bool"
  Posts :: "Post list"

text \<open>
  The maps of the source hold pointers (\<^verbatim>\<open>*User\<close>, \<^verbatim>\<open>*Subreddit\<close>, \<^verbatim>\<open>*Post\<close>).
  Every pointer is created by one handler and stored in one place only, so no two
  entries alias and the pointed-to structs are stored by value.
\<close>

record EngineActor =
  users :: "int64 \<rightharpoonup> User"
  subreddits :: "string \<rightharpoonup> Subreddit"
  nextUserID :: int64
  nextPostID :: int64

subsection \<open>Messages\<close>

text \<open>The fields are in the order of the struct declarations, without \<^verbatim>\<open>Reply\<close>.\<close>

datatype Msg =
    RegisterUser string
  | CreateSubreddit int64 string
  | JoinSubreddit int64 string
  | LeaveSubreddit int64 string
  | CreatePost int64 string string
  | CommentOnPost int64 int64 string
  | ReplyToComment int64 int64 int64 string
  | LikePost int64 int64
  | DislikePost int64 int64
  | SendMessage int64 int64 string
  | ReplyToMessage int64 int64 string
  | ViewInbox int64

text \<open>
  The only way \<^verbatim>\<open>Receive\<close> fails is the dereference of a nil \<^verbatim>\<open>*User\<close>; the
  panic leaves the request without a reply.
\<close>

datatype error = NilPointerDereference

subsection \<open>Formatting\<close>

text \<open>
  The verb \<^verbatim>\<open>%d\<close> of \<^verbatim>\<open>fmt.Sprintf\<close> on an \<^verbatim>\<open>int\<close>: the decimal digits, with a
  minus sign for a negative value.
\<close>

fun string_of_nat :: "nat \<Rightarrow> string" where
  "string_of_nat n =
     (if n < 10 then [''0123456789'' ! n]
      else string_of_nat (n div 10) @ [''0123456789'' ! (n mod 10)])"

declare string_of_nat.simps [simp del]

definition fmt_d :: "int64 \<Rightarrow> string" where
  "fmt_d i =
     (if sint i < 0 then CHR ''-'' # string_of_nat (nat (- sint i))
      else string_of_nat (nat (sint i)))"

text \<open>\<^verbatim>\<open>strings.Join\<close>.\<close>

fun strings_Join :: "string list \<Rightarrow> string \<Rightarrow> string" where
  "strings_Join [] sep = []"
| "strings_Join [x] sep = x"
| "strings_Join (x # y # ys) sep = x @ sep @ strings_Join (y # ys) sep"

text \<open>The escape sequences \<^verbatim>\<open>\033[1;32m\<close>, \<^verbatim>\<open>\033[1;31m\<close> and \<^verbatim>\<open>\033[0m\<close>.\<close>

definition green :: string where
  "green = CHR 0x1B # ''[1;32m''"

definition red :: string where
  "red = CHR 0x1B # ''[1;31m''"

definition reset :: string where
  "reset = CHR 0x1B # ''[0m''"

subsection \<open>getUsername\<close>

definition getUsername :: "EngineActor \<Rightarrow> int64 \<Rightarrow> string" where
  "getUsername state userID =
     (case users state userID of
        Some user \<Rightarrow> Username user
      | None \<Rightarrow> ''User'' @ fmt_d userID)"

subsection \<open>Scanning subreddits and posts\<close>

text \<open>
  \<^verbatim>\<open>range state.subreddits\<close> visits the keys of a Go map in an order the language
  leaves open. The order is the parameter \<open>ord\<close> of the scans and of \<open>Receive\<close>; a
  key of \<open>ord\<close> that the map does not hold is skipped. Statements about the scans
  assume what they need of \<open>ord\<close>, at most that it enumerates the keys.

  Inner loop of \<^verbatim>\<open>CommentOnPost\<close>: the first post with the id gets the comment;
  \<open>None\<close> when the loop ends without a match.
\<close>

fun comment_posts :: "Post list \<Rightarrow> int64 \<Rightarrow> string \<Rightarrow> Post list option" where
  "comment_posts [] postID c = None"
| "comment_posts (post # rest) postID c =
     (if Post.ID post = postID then Some (post\<lparr>Comments := Comments post @ [c]\<rparr> # rest)
      else map_option ((#) post) (comment_posts rest postID c))"

fun comment_subreddits ::
  "(string \<rightharpoonup> Subreddit) \<Rightarrow> string list \<Rightarrow> int64 \<Rightarrow> string \<Rightarrow> (string \<rightharpoonup> Subreddit) option"
where
  "comment_subreddits m [] postID c = None"
| "comment_subreddits m (name # ord) postID c =
     (case m name of
        None \<Rightarrow> comment_subreddits m ord postID c
      | Some subreddit \<Rightarrow>
          (case comment_posts (Posts subreddit) postID c of
             Some posts \<Rightarrow> Some (m(name \<mapsto> subreddit\<lparr>Posts := posts\<rparr>))
           | None \<Rightarrow> comment_subreddits m ord postID c))"

text \<open>
  Inner loop of \<^verbatim>\<open>ReplyToComment\<close>: a post with the id whose comment index is out
  of range does not end the loop. The reply text reads
  \<^verbatim>\<open>state.users[msg.UserID].Username\<close> before the comment is assigned, so an absent
  user panics with the comment unchanged. \<open>Inr None\<close>: the loop ended without a match.
\<close>

fun reply_posts ::
  "EngineActor \<Rightarrow> Post list \<Rightarrow> int64 \<Rightarrow> int64 \<Rightarrow> int64 \<Rightarrow> string \<Rightarrow> error + Post list option"
where
  "reply_posts state [] postID commentID userID content = Inr None"
| "reply_posts state (post # rest) postID commentID userID content =
     (if Post.ID post = postID \<and> 1 \<le> sint commentID
         \<and> sint commentID \<le> int (length (Comments post))
      then
        (let commentIndex = nat (sint commentID - 1) in
         case users state userID of
           None \<Rightarrow> Inl NilPointerDereference
         | Some user \<Rightarrow>
             Inr (Some (post\<lparr>Comments := (Comments post)
                    [commentIndex := Comments post ! commentIndex
                       @ ''\<newline>Reply by '' @ [CHR 0x27] @ Username user @ [CHR 0x27]
                       @ '': '' @ content]\<rparr> # rest)))
      else
        (case reply_posts state rest postID commentID userID content of
           Inl e \<Rightarrow> Inl e
         | Inr None \<Rightarrow> Inr None
         | Inr (Some posts) \<Rightarrow> Inr (Some (post # posts))))"

fun reply_subreddits ::
  "EngineActor \<Rightarrow> string list \<Rightarrow> int64 \<Rightarrow> int64 \<Rightarrow> int64 \<Rightarrow> string
     \<Rightarrow> error + (string \<rightharpoonup> Subreddit) option"
where
  "reply_subreddits state [] postID commentID userID content = Inr None"
| "reply_subreddits state (name # ord) postID commentID userID content =
     (case subreddits state name of
        None \<Rightarrow> reply_subreddits state ord postID commentID userID content
      | Some subreddit \<Rightarrow>
          (case reply_posts state (Posts subreddit) postID commentID userID content of
             Inl e \<Rightarrow> Inl e
           | Inr (Some posts) \<Rightarrow>
               Inr (Some ((subreddits state)(name \<mapsto> subreddit\<lparr>Posts := posts\<rparr>)))
           | Inr None \<Rightarrow> reply_subreddits state ord postID commentID userID content))"

subsection \<open>Receive\<close>

fun Receive :: "string list \<Rightarrow> EngineActor \<Rightarrow> Msg \<Rightarrow> error + (EngineActor \<times> string)" where
  "Receive ord state (RegisterUser username) =
     (let state1 = state\<lparr>nextUserID := nextUserID state + 1\<rparr>;
          user = \<lparr>User.ID = nextUserID state1, Username = username, Inbox = []\<rparr>
      in Inr (state1\<lparr>users := (users state1)(User.ID user \<mapsto> user)\<rparr>,
              green @ ''User '' @ [CHR 0x27] @ username @ [CHR 0x27]
                @ '' registered successfully with ID '' @ fmt_d (User.ID user) @ ''.'' @ reset))"
| "Receive ord state (CreateSubreddit userID subreddit) =
     (case subreddits state subreddit of
        Some _ \<Rightarrow>
          Inr (state, green @ ''Subreddit '' @ [CHR 0x27] @ subreddit @ [CHR 0x27]
                 @ '' already exists.'' @ reset)
      | None \<Rightarrow>
          Inr (state\<lparr>subreddits := (subreddits state)
                   (subreddit \<mapsto> \<lparr>Name = subreddit, Users = Map.empty, Posts = []\<rparr>)\<rparr>,
               green @ ''Subreddit '' @ [CHR 0x27] @ subreddit @ [CHR 0x27]
                 @ '' created successfully.'' @ reset))"
| "Receive ord state (JoinSubreddit userID name) =
     (case subreddits state name of
        Some subreddit \<Rightarrow>
          (let state1 = state\<lparr>subreddits := (subreddits state)
                   (name \<mapsto> subreddit\<lparr>Users := (Users subreddit)(userID \<mapsto> True)\<rparr>)\<rparr>
           in Inr (state1, green @ ''User '' @ [CHR 0x27] @ getUsername state1 userID @ [CHR 0x27]
                     @ '' joined subreddit '' @ [CHR 0x27] @ name @ [CHR 0x27] @ ''.'' @ reset))
      | None \<Rightarrow>
          Inr (state, red @ ''Subreddit '' @ [CHR 0x27] @ name @ [CHR 0x27]
                 @ '' does not exist.'' @ reset))"
| "Receive ord state (LeaveSubreddit userID name) =
     (case subreddits state name of
        Some subreddit \<Rightarrow>
          (let state1 = state\<lparr>subreddits := (subreddits state)
                   (name \<mapsto> subreddit\<lparr>Users := (Users subreddit)(userID := None)\<rparr>)\<rparr>
           in Inr (state1, green @ ''User '' @ [CHR 0x27] @ getUsername state1 userID @ [CHR 0x27]
                     @ '' left subreddit '' @ [CHR 0x27] @ name @ [CHR 0x27] @ ''.'' @ reset))
      | None \<Rightarrow>
          Inr (state, red @ ''Subreddit '' @ [CHR 0x27] @ name @ [CHR 0x27]
                 @ '' does not exist.'' @ reset))"
| "Receive ord state (CreatePost userID name content) =
     (let state1 = state\<lparr>nextPostID := nextPostID state + 1\<rparr> in
      case subreddits state1 name of
        Some subreddit \<Rightarrow>
          (let post = \<lparr>Post.ID = nextPostID state1, UserID = userID, Subreddit = name,
                        Content = content, Comments = []\<rparr>;
               state2 = state1\<lparr>subreddits := (subreddits state1)
                   (name \<mapsto> subreddit\<lparr>Posts := Posts subreddit @ [post]\<rparr>)\<rparr>
           in Inr (state2, green @ ''User '' @ [CHR 0x27] @ getUsername state2 userID @ [CHR 0x27]
                     @ '' posted in '' @ [CHR 0x27] @ name @ [CHR 0x27] @ '': '' @ content
                     @ reset))
      | None \<Rightarrow>
          Inr (state1, red @ ''Subreddit '' @ [CHR 0x27] @ name @ [CHR 0x27]
                 @ '' does not exist.'' @ reset))"
| "Receive ord state (CommentOnPost postID userID content) =
     (case comment_subreddits (subreddits state) ord postID
             (''User '' @ [CHR 0x27] @ getUsername state userID @ [CHR 0x27] @ '': '' @ content) of
        Some m \<Rightarrow>
          (let state1 = state\<lparr>subreddits := m\<rparr>
           in Inr (state1, green @ ''User '' @ [CHR 0x27] @ getUsername state1 userID @ [CHR 0x27]
                     @ '' commented on post '' @ fmt_d postID @ '': '' @ content @ reset))
      | None \<Rightarrow>
          Inr (state, red @ ''Post ID '' @ [CHR 0x27] @ ''%!d(MISSING)'' @ [CHR 0x27]
                 @ '' not found.'' @ reset))"
| "Receive ord state (ReplyToComment postID commentID userID content) =
     (case reply_subreddits state ord postID commentID userID content of
        Inl e \<Rightarrow> Inl e
      | Inr (Some m) \<Rightarrow>
          (let state1 = state\<lparr>subreddits := m\<rparr> in
           case users state1 userID of
             None \<Rightarrow> Inl NilPointerDereference
           | Some user \<Rightarrow>
               Inr (state1, green @ ''User '' @ [CHR 0x27] @ Username user @ [CHR 0x27]
                      @ '' replied to comment '' @ fmt_d commentID @ '' on post '' @ fmt_d postID
                      @ '': '' @ content @ reset))
      | Inr None \<Rightarrow> Inr (state, red @ ''Comment or Post not found.'' @ reset))"
| "Receive ord state (LikePost postID userID) =
     Inr (state, green @ ''User '' @ [CHR 0x27] @ getUsername state userID @ [CHR 0x27]
            @ '' liked post '' @ fmt_d postID @ ''.'' @ reset)"
| "Receive ord state (DislikePost postID userID) =
     Inr (state, green @ ''User '' @ [CHR 0x27] @ getUsername state userID @ [CHR 0x27]
            @ '' disliked post '' @ fmt_d postID @ ''.'' @ reset)"
| "Receive ord state (SendMessage senderID receiverID content) =
     (case users state receiverID of
        Some receiver \<Rightarrow>
          (let receiver1 = receiver\<lparr>Inbox := Inbox receiver
                   @ [''Message from '' @ [CHR 0x27] @ getUsername state senderID @ [CHR 0x27]
                        @ '': '' @ content]\<rparr>
           in Inr (state\<lparr>users := (users state)(receiverID \<mapsto> receiver1)\<rparr>,
                   green @ ''Message sent to User '' @ [CHR 0x27] @ Username receiver1
                     @ [CHR 0x27] @ ''.'' @ reset))
      | None \<Rightarrow>
          Inr (state, red @ ''User with ID '' @ fmt_d receiverID @ '' does not exist.'' @ reset))"
| "Receive ord state (ReplyToMessage senderID receiverID content) =
     (case users state receiverID of
        Some receiver \<Rightarrow>
          (let receiver1 = receiver\<lparr>Inbox := Inbox receiver
                   @ [''Reply from '' @ [CHR 0x27] @ getUsername state senderID @ [CHR 0x27]
                        @ '': '' @ content]\<rparr>
           in Inr (state\<lparr>users := (users state)(receiverID \<mapsto> receiver1)\<rparr>,
                   green @ ''Reply sent to User '' @ [CHR 0x27] @ Username receiver1
                     @ [CHR 0x27] @ ''.'' @ reset))
      | None \<Rightarrow>
          Inr (state, red @ ''User with ID '' @ fmt_d receiverID @ '' does not exist.'' @ reset))"
| "Receive ord state (ViewInbox userID) =
     (case users state userID of
        Some user \<Rightarrow>
          (if length (Inbox user) = 0 then Inr (state, green @ ''Inbox is empty.'' @ reset)
           else Inr (state, green @ ''Inbox:\<newline>'' @ strings_Join (Inbox user) ''\<newline>''
                       @ reset))
      | None \<Rightarrow>
          Inr (state, red @ ''User with ID '' @ fmt_d userID @ '' does not exist.'' @ reset))"

subsection \<open>The driver\<close>

text \<open>The state \<^verbatim>\<open>main\<close> starts the actor with: two empty maps, both counters zero.\<close>

definition engineActor :: EngineActor where
  "engineActor = \<lparr>users = Map.empty, subreddits = Map.empty, nextUserID = 0, nextPostID = 0\<rparr>"

text \<open>
  The loop of \<^verbatim>\<open>main\<close> sends one request and blocks until its reply arrives. A
  request whose handler panicked never replies, so the loop stops there. Each request
  comes with the order in which the maps happen to be ranged over while it is handled.
\<close>

fun main_loop :: "EngineActor \<Rightarrow> (string list \<times> Msg) list \<Rightarrow> error + (EngineActor \<times> string list)" where
  "main_loop state [] = Inr (state, [])"
| "main_loop state ((ord, msg) # rest) =
     (case Receive ord state msg of
        Inl e \<Rightarrow> Inl e
      | Inr (state1, reply) \<Rightarrow>
          (case main_loop state1 rest of
             Inl e \<Rightarrow> Inl e
           | Inr (state2, replies) \<Rightarrow> Inr (state2, reply # replies)))"

subsection \<open>Observations used in the statements\<close>

text \<open>
  Membership as Go reads it, \<^verbatim>\<open>state.subreddits[name].Users[userID]\<close>: a key the
  map does not hold reads as \<open>false\<close>. No handler reads it; join stores \<open>true\<close> and
  leave deletes the key.
\<close>

definition is_member :: "EngineActor \<Rightarrow> string \<Rightarrow> int64 \<Rightarrow> bool" where
  "is_member state name userID =
     (case subreddits state name of
        Some subreddit \<Rightarrow> (case Users subreddit userID of Some b \<Rightarrow> b | None \<Rightarrow> False)
      | None \<Rightarrow> False)"

text \<open>
  The line a \<^verbatim>\<open>SendMessage\<close> or \<^verbatim>\<open>ReplyToMessage\<close> request appends to the
  receiver's inbox (the two \<^verbatim>\<open>Sprintf\<close> calls of those cases).
\<close>

definition inbox_line :: "EngineActor \<Rightarrow> Msg \<Rightarrow> string" where
  "inbox_line state msg =
     (case msg of
        SendMessage senderID receiverID content \<Rightarrow>
          ''Message from '' @ [CHR 0x27] @ getUsername state senderID @ [CHR 0x27] @ '': '' @ content
      | ReplyToMessage senderID receiverID content \<Rightarrow>
          ''Reply from '' @ [CHR 0x27] @ getUsername state senderID @ [CHR 0x27] @ '': '' @ content
      | _ \<Rightarrow> [])"

text \<open>
  A store used in the examples: alice and bob registered, the community golang created,
  nothing posted yet.
\<close>

definition golang_store :: EngineActor where
  "golang_store =
     \<lparr>users = [1 \<mapsto> \<lparr>User.ID = 1, Username = ''alice'', Inbox = []\<rparr>,
               2 \<mapsto> \<lparr>User.ID = 2, Username = ''bob'', Inbox = []\<rparr>],
      subreddits = [''golang'' \<mapsto> \<lparr>Name = ''golang'', Users = Map.empty, Posts = []\<rparr>],
      nextUserID = 2, nextPostID = 0\<rparr>"



text \<open>
  The store after alice posted "hello" in golang and bob commented "nice" on it.
\<close>

definition hello_store :: EngineActor where
  "hello_store =
     golang_store\<lparr>nextPostID := 1,
       subreddits := [''golang'' \<mapsto> \<lparr>Name = ''golang'', Users = Map.empty,
          Posts = [\<lparr>Post.ID = 1, UserID = 1, Subreddit = ''golang'', Content = ''hello'',
                     Comments = [''User 'bob': nice'']\<rparr>]\<rparr>]\<rparr>"

section \<open>Properties\<close>

subsection \<open>Decimal formatting on small numbers\<close>

lemma string_of_nat_digit: "n < 10 \<Longrightarrow> string_of_nat n = [''0123456789'' ! n]"
  by (simp add: string_of_nat.simps)

lemma fmt_d_1: "fmt_d 1 = ''1''"
  by (simp add: fmt_d_def string_of_nat_digit)

lemma fmt_d_2: "fmt_d 2 = ''2''"
  by (simp add: fmt_d_def string_of_nat_digit)

lemma fmt_d_7: "fmt_d 7 = ''7''"
  by (simp add: fmt_d_def string_of_nat_digit)

subsection \<open>The example store is reached from the initial one\<close>

lemma golang_store_reached:
  "main_loop engineActor
     [([], RegisterUser ''alice''), ([], RegisterUser ''bob''), ([], CreateSubreddit 1 ''golang'')]
   = Inr (golang_store,
       [CHR 0x1B # ''[1;32mUser 'alice' registered successfully with ID 1.'' @ CHR 0x1B # ''[0m'',
        CHR 0x1B # ''[1;32mUser 'bob' registered successfully with ID 2.'' @ CHR 0x1B # ''[0m'',
        CHR 0x1B # ''[1;32mSubreddit 'golang' created successfully.'' @ CHR 0x1B # ''[0m''])"
  by (simp add: engineActor_def golang_store_def Let_def green_def reset_def fmt_d_1 fmt_d_2)

subsection \<open>Create post on a missing community\<close>

text \<open>
  C1: for every store, Create post for a community name the store does not hold advances
  \<open>nextPostID\<close> by one, answers "does not exist" and changes nothing else; a Create post
  that follows it in an existing community gets the id after the skipped one, so the ids of
  stored posts have a gap.
\<close>

theorem CreatePost_missing_subreddit:
  assumes "subreddits state name = None"
  shows "Receive ord state (CreatePost userID name content) =
           Inr (state\<lparr>nextPostID := nextPostID state + 1\<rparr>,
                red @ ''Subreddit '' @ [CHR 0x27] @ name @ [CHR 0x27]
                  @ '' does not exist.'' @ reset)
         \<and> (\<forall>ord' userID' name' content' subreddit.
              subreddits state name' = Some subreddit \<longrightarrow>
              Receive ord' (state\<lparr>nextPostID := nextPostID state + 1\<rparr>)
                  (CreatePost userID' name' content') =
                Inr (state\<lparr>nextPostID := nextPostID state + 2,
                       subreddits := (subreddits state)(name' \<mapsto> subreddit\<lparr>Posts :=
                         Posts subreddit @ [\<lparr>Post.ID = nextPostID state + 2, UserID = userID',
                            Subreddit = name', Content = content', Comments = []\<rparr>]\<rparr>)\<rparr>,
                     green @ ''User '' @ [CHR 0x27] @ getUsername state userID' @ [CHR 0x27]
                       @ '' posted in '' @ [CHR 0x27] @ name' @ [CHR 0x27] @ '': '' @ content'
                       @ reset))"
  using assms by (simp add: Let_def getUsername_def add.commute)

theorem CreatePost_missing_subreddit_witness:
  "subreddits golang_store ''rust'' = None
   \<and> subreddits golang_store ''golang''
       = Some \<lparr>Name = ''golang'', Users = Map.empty, Posts = []\<rparr>
   \<and> Receive [''golang''] golang_store (CreatePost 1 ''rust'' ''hi'') =
       Inr (golang_store\<lparr>nextPostID := 1\<rparr>,
            CHR 0x1B # ''[1;31mSubreddit 'rust' does not exist.'' @ CHR 0x1B # ''[0m'')
   \<and> Receive [''golang''] (golang_store\<lparr>nextPostID := 1\<rparr>) (CreatePost 1 ''golang'' ''hello'') =
       Inr (golang_store\<lparr>nextPostID := 2,
              subreddits := [''golang'' \<mapsto> \<lparr>Name = ''golang'', Users = Map.empty,
                 Posts = [\<lparr>Post.ID = 2, UserID = 1, Subreddit = ''golang'',
                           Content = ''hello'', Comments = []\<rparr>]\<rparr>]\<rparr>,
            CHR 0x1B # ''[1;32mUser 'alice' posted in 'golang': hello'' @ CHR 0x1B # ''[0m'')"
proof -
  have h: "subreddits golang_store ''rust'' = None"
    by (simp add: golang_store_def)
  have g: "subreddits golang_store ''golang''
       = Some \<lparr>Name = ''golang'', Users = Map.empty, Posts = []\<rparr>"
    by (simp add: golang_store_def)
  note inst = CreatePost_missing_subreddit [OF h, of "[''golang'']" 1 "''hi''"]
  from inst have first: "Receive [''golang''] golang_store (CreatePost 1 ''rust'' ''hi'') =
       Inr (golang_store\<lparr>nextPostID := 1\<rparr>,
            CHR 0x1B # ''[1;31mSubreddit 'rust' does not exist.'' @ CHR 0x1B # ''[0m'')"
    by (simp add: golang_store_def red_def reset_def)
  from inst g have "Receive [''golang''] (golang_store\<lparr>nextPostID := nextPostID golang_store + 1\<rparr>)
         (CreatePost 1 ''golang'' ''hello'') =
       Inr (golang_store\<lparr>nextPostID := nextPostID golang_store + 2,
              subreddits := (subreddits golang_store)(''golang'' \<mapsto>
                 \<lparr>Name = ''golang'', Users = Map.empty, Posts = []\<rparr>\<lparr>Posts :=
                    Posts \<lparr>Name = ''golang'', Users = Map.empty, Posts = []\<rparr>
                      @ [\<lparr>Post.ID = nextPostID golang_store + 2, UserID = 1,
                            Subreddit = ''golang'', Content = ''hello'', Comments = []\<rparr>]\<rparr>)\<rparr>,
            green @ ''User '' @ [CHR 0x27] @ getUsername golang_store 1 @ [CHR 0x27]
              @ '' posted in '' @ [CHR 0x27] @ ''golang'' @ [CHR 0x27] @ '': '' @ ''hello''
              @ reset)"
    by blast
  then have second: "Receive [''golang''] (golang_store\<lparr>nextPostID := 1\<rparr>)
         (CreatePost 1 ''golang'' ''hello'') =
       Inr (golang_store\<lparr>nextPostID := 2,
              subreddits := [''golang'' \<mapsto> \<lparr>Name = ''golang'', Users = Map.empty,
                 Posts = [\<lparr>Post.ID = 2, UserID = 1, Subreddit = ''golang'',
                           Content = ''hello'', Comments = []\<rparr>]\<rparr>]\<rparr>,
            CHR 0x1B # ''[1;32mUser 'alice' posted in 'golang': hello'' @ CHR 0x1B # ''[0m'')"
    by (simp add: golang_store_def getUsername_def green_def reset_def)
  from h g first second show ?thesis by blast
qed

subsection \<open>Create community on an existing name\<close>

text \<open>
  C3: in every store that holds a community of the given name, Create community with
  that name returns the store as it is, so the community's members and posts are
  unchanged, and answers "already exists".
\<close>

theorem CreateSubreddit_existing:
  assumes "subreddits state name = Some subreddit"
  shows "Receive ord state (CreateSubreddit userID name) =
           Inr (state, green @ ''Subreddit '' @ [CHR 0x27] @ name @ [CHR 0x27]
                  @ '' already exists.'' @ reset)"
  using assms by simp

theorem CreateSubreddit_existing_witness:
  "subreddits golang_store ''golang''
     = Some \<lparr>Name = ''golang'', Users = Map.empty, Posts = []\<rparr>
   \<and> Receive [''golang''] golang_store (CreateSubreddit 2 ''golang'')
     = Inr (golang_store,
            CHR 0x1B # ''[1;32mSubreddit 'golang' already exists.'' @ CHR 0x1B # ''[0m'')"
proof -
  have h: "subreddits golang_store ''golang''
     = Some \<lparr>Name = ''golang'', Users = Map.empty, Posts = []\<rparr>"
    by (simp add: golang_store_def)
  show ?thesis
    using h CreateSubreddit_existing [OF h, of "[''golang'']" 2]
    by (simp add: green_def reset_def)
qed

subsection \<open>Join on a missing community\<close>

text \<open>
  C4: for every store and user id, Join community with a name the store does not hold
  returns the store as it is and answers "does not exist".
\<close>

theorem JoinSubreddit_missing:
  assumes "subreddits state name = None"
  shows "Receive ord state (JoinSubreddit userID name) =
           Inr (state, red @ ''Subreddit '' @ [CHR 0x27] @ name @ [CHR 0x27]
                  @ '' does not exist.'' @ reset)"
  using assms by simp

theorem JoinSubreddit_missing_witness:
  "subreddits engineActor ''golang'' = None
   \<and> Receive [] engineActor (JoinSubreddit 1 ''golang'')
     = Inr (engineActor,
            CHR 0x1B # ''[1;31mSubreddit 'golang' does not exist.'' @ CHR 0x1B # ''[0m'')"
proof -
  have h: "subreddits engineActor ''golang'' = None"
    by (simp add: engineActor_def)
  show ?thesis
    using h JoinSubreddit_missing [OF h, of "[]" 1]
    by (simp add: red_def reset_def)
qed

subsection \<open>Sequences of join and leave\<close>

lemma join_leave_loop:
  assumes "subreddits state name = Some sub"
    and "\<forall>req \<in> set reqs. snd req = JoinSubreddit uid name \<or> snd req = LeaveSubreddit uid name"
  shows "\<exists>state' replies sub'. main_loop state reqs = Inr (state', replies)
           \<and> subreddits state' name = Some sub'
           \<and> (reqs \<noteq> [] \<longrightarrow> is_member state' name uid = (snd (last reqs) = JoinSubreddit uid name))"
  using assms
proof (induction reqs arbitrary: state sub)
  case Nil
  then show ?case by simp
next
  case (Cons req reqs)
  obtain ord msg where req: "req = (ord, msg)" by (cases req)
  from Cons.prems(2) req have msg: "msg = JoinSubreddit uid name \<or> msg = LeaveSubreddit uid name"
    by simp
  then obtain state1 reply sub1 where
    step: "Receive ord state msg = Inr (state1, reply)"
    and sub1: "subreddits state1 name = Some sub1"
    and mem1: "is_member state1 name uid = (msg = JoinSubreddit uid name)"
    using Cons.prems(1) by (auto simp: is_member_def Let_def)
  from Cons.prems(2) have rest: "\<forall>req \<in> set reqs. snd req = JoinSubreddit uid name \<or> snd req = LeaveSubreddit uid name"
    by simp
  from Cons.IH [OF sub1 rest] obtain state' replies sub' where
    loop: "main_loop state1 reqs = Inr (state', replies)"
    and sub': "subreddits state' name = Some sub'"
    and mem': "reqs \<noteq> [] \<longrightarrow> is_member state' name uid = (snd (last reqs) = JoinSubreddit uid name)"
    by blast
  show ?case
  proof (cases "reqs = []")
    case True
    with step sub1 mem1 req show ?thesis by simp
  next
    case False
    with step loop sub' mem' req show ?thesis by simp
  qed
qed

text \<open>
  C5: for an existing community, a user id and a non-empty sequence of Join and Leave
  requests of that user on that community, every request is answered, and the membership
  at the end is the membership after the last request alone, handled in any store that
  holds the community: member exactly when the last request is a Join.
\<close>

theorem join_leave_last_wins:
  assumes "subreddits state name = Some sub"
    and "subreddits state0 name = Some sub0"
    and "reqs \<noteq> []"
    and "\<forall>req \<in> set reqs. snd req = JoinSubreddit uid name \<or> snd req = LeaveSubreddit uid name"
  shows "\<exists>state' replies state1 reply.
           main_loop state reqs = Inr (state', replies)
           \<and> Receive ord0 state0 (snd (last reqs)) = Inr (state1, reply)
           \<and> is_member state' name uid = is_member state1 name uid
           \<and> is_member state' name uid = (snd (last reqs) = JoinSubreddit uid name)"
proof -
  from join_leave_loop [OF assms(1) assms(4)] assms(3) obtain state' replies where
    loop: "main_loop state reqs = Inr (state', replies)"
    and mem: "is_member state' name uid = (snd (last reqs) = JoinSubreddit uid name)"
    by blast
  from assms(3,4) have "snd (last reqs) = JoinSubreddit uid name \<or> snd (last reqs) = LeaveSubreddit uid name"
    by simp
  then obtain state1 reply where
    one: "Receive ord0 state0 (snd (last reqs)) = Inr (state1, reply)"
    and mem1: "is_member state1 name uid = (snd (last reqs) = JoinSubreddit uid name)"
    using assms(2) by (auto simp: is_member_def Let_def)
  from loop one mem mem1 show ?thesis by simp
qed

theorem join_leave_last_wins_witness:
  "(case main_loop golang_store
           [([''golang''], JoinSubreddit 2 ''golang''), ([''golang''], LeaveSubreddit 2 ''golang''),
            ([''golang''], LeaveSubreddit 2 ''golang''), ([''golang''], JoinSubreddit 2 ''golang'')] of
      Inr (state', replies) \<Rightarrow> is_member state' ''golang'' 2
    | Inl e \<Rightarrow> False)
   \<and> (case Receive [] golang_store (JoinSubreddit 2 ''golang'') of
      Inr (state1, reply) \<Rightarrow> is_member state1 ''golang'' 2
    | Inl e \<Rightarrow> False)"
proof -
  have h: "subreddits golang_store ''golang''
     = Some \<lparr>Name = ''golang'', Users = Map.empty, Posts = []\<rparr>"
    by (simp add: golang_store_def)
  let ?reqs = "[([''golang''], JoinSubreddit 2 ''golang''), ([''golang''], LeaveSubreddit 2 ''golang''),
            ([''golang''], LeaveSubreddit 2 ''golang''), ([''golang''], JoinSubreddit 2 ''golang'')]"
  have ne: "?reqs \<noteq> []" by simp
  have all: "\<forall>req \<in> set ?reqs. snd req = JoinSubreddit 2 ''golang'' \<or> snd req = LeaveSubreddit 2 ''golang''"
    by simp
  from join_leave_last_wins [OF h h ne all, of "[]"] obtain state' replies state1 reply where
    "main_loop golang_store ?reqs = Inr (state', replies)"
    "Receive [] golang_store (snd (last ?reqs)) = Inr (state1, reply)"
    "is_member state' ''golang'' 2 = is_member state1 ''golang'' 2"
    "is_member state' ''golang'' 2 = (snd (last ?reqs) = JoinSubreddit 2 ''golang'')"
    by blast
  then show ?thesis by simp
qed

subsection \<open>The inbox\<close>

lemma getUsername_inbox:
  assumes "users state uid = Some user"
  shows "getUsername (state\<lparr>users := (users state)(uid \<mapsto> user\<lparr>Inbox := box\<rparr>)\<rparr>) sender
           = getUsername state sender"
  using assms by (simp add: getUsername_def)

lemma inbox_line_inbox:
  assumes "users state uid = Some user"
  shows "inbox_line (state\<lparr>users := (users state)(uid \<mapsto> user\<lparr>Inbox := box\<rparr>)\<rparr>) msg
           = inbox_line state msg"
  using assms by (simp add: inbox_line_def getUsername_inbox split: Msg.splits)

lemma send_loop:
  assumes "users state uid = Some user"
    and "\<forall>req \<in> set reqs. \<exists>sender content.
           snd req = SendMessage sender uid content \<or> snd req = ReplyToMessage sender uid content"
  shows "\<exists>replies. main_loop state reqs =
           Inr (state\<lparr>users := (users state)
                  (uid \<mapsto> user\<lparr>Inbox := Inbox user @ map (\<lambda>req. inbox_line state (snd req)) reqs\<rparr>)\<rparr>,
                replies)"
  using assms
proof (induction reqs arbitrary: state user)
  case Nil
  then have "(users state)(uid \<mapsto> user) = users state"
    by (simp add: fun_upd_idem)
  then show ?case by simp
next
  case (Cons req reqs)
  obtain ord msg where req: "req = (ord, msg)" by (cases req)
  let ?user1 = "user\<lparr>Inbox := Inbox user @ [inbox_line state msg]\<rparr>"
  let ?state1 = "state\<lparr>users := (users state)(uid \<mapsto> ?user1)\<rparr>"
  from Cons.prems(2) req obtain sender content where
    msg: "msg = SendMessage sender uid content \<or> msg = ReplyToMessage sender uid content"
    by auto
  with Cons.prems(1) obtain reply where step: "Receive ord state msg = Inr (?state1, reply)"
    by (auto simp: inbox_line_def Let_def)
  have u1: "users ?state1 uid = Some ?user1" by simp
  from Cons.prems(2) have rest: "\<forall>req \<in> set reqs. \<exists>sender content.
           snd req = SendMessage sender uid content \<or> snd req = ReplyToMessage sender uid content"
    by simp
  from Cons.IH [OF u1 rest] obtain replies where
    loop: "main_loop ?state1 reqs =
           Inr (?state1\<lparr>users := (users ?state1)
                  (uid \<mapsto> ?user1\<lparr>Inbox := Inbox ?user1 @ map (\<lambda>req. inbox_line ?state1 (snd req)) reqs\<rparr>)\<rparr>,
                replies)"
    by blast
  have same: "\<And>m. inbox_line ?state1 m = inbox_line state m"
    using inbox_line_inbox [OF Cons.prems(1)] by simp
  from loop have loop': "main_loop ?state1 reqs =
           Inr (state\<lparr>users := (users state)
                  (uid \<mapsto> user\<lparr>Inbox := Inbox user @ map (\<lambda>req. inbox_line state (snd req)) (req # reqs)\<rparr>)\<rparr>,
                replies)"
    by (simp add: same req)
  have "main_loop state (req # reqs) =
           Inr (state\<lparr>users := (users state)
                  (uid \<mapsto> user\<lparr>Inbox := Inbox user @ map (\<lambda>req. inbox_line state (snd req)) (req # reqs)\<rparr>)\<rparr>,
                reply # replies)"
    unfolding req main_loop.simps step using loop' unfolding req by simp
  then show ?case by blast
qed

text \<open>
  C6: View inbox of an existing user returns the store as it is; the reply is the
  empty-inbox text when the inbox is empty and otherwise the inbox lines joined by
  newlines. After N messages sent to the user the inbox holds the lines it held before
  followed by the N lines of those messages in the order sent, and View inbox shows them.
\<close>

theorem ViewInbox_lines:
  assumes "users state uid = Some user"
    and "\<forall>req \<in> set reqs. \<exists>sender content.
           snd req = SendMessage sender uid content \<or> snd req = ReplyToMessage sender uid content"
  shows "Receive ord state (ViewInbox uid) =
           Inr (state, if Inbox user = [] then green @ ''Inbox is empty.'' @ reset
                       else green @ ''Inbox:\<newline>'' @ strings_Join (Inbox user) ''\<newline>'' @ reset)
         \<and> (\<exists>state' replies user'.
               main_loop state reqs = Inr (state', replies)
               \<and> users state' uid = Some user'
               \<and> Inbox user' = Inbox user @ map (\<lambda>req. inbox_line state (snd req)) reqs
               \<and> Receive ord state' (ViewInbox uid) =
                   Inr (state', if Inbox user' = [] then green @ ''Inbox is empty.'' @ reset
                       else green @ ''Inbox:\<newline>'' @ strings_Join (Inbox user') ''\<newline>'' @ reset))"
proof -
  have view: "\<And>st u. users st uid = Some u \<Longrightarrow> Receive ord st (ViewInbox uid) =
           Inr (st, if Inbox u = [] then green @ ''Inbox is empty.'' @ reset
                       else green @ ''Inbox:\<newline>'' @ strings_Join (Inbox u) ''\<newline>'' @ reset)"
    by simp
  from send_loop [OF assms] obtain replies where
    loop: "main_loop state reqs =
           Inr (state\<lparr>users := (users state)
                  (uid \<mapsto> user\<lparr>Inbox := Inbox user @ map (\<lambda>req. inbox_line state (snd req)) reqs\<rparr>)\<rparr>,
                replies)"
    by blast
  let ?user' = "user\<lparr>Inbox := Inbox user @ map (\<lambda>req. inbox_line state (snd req)) reqs\<rparr>"
  let ?state' = "state\<lparr>users := (users state)(uid \<mapsto> ?user')\<rparr>"
  have u': "users ?state' uid = Some ?user'" by simp
  have "main_loop state reqs = Inr (?state', replies)
        \<and> users ?state' uid = Some ?user'
        \<and> Inbox ?user' = Inbox user @ map (\<lambda>req. inbox_line state (snd req)) reqs
        \<and> Receive ord ?state' (ViewInbox uid) =
                   Inr (?state', if Inbox ?user' = [] then green @ ''Inbox is empty.'' @ reset
                       else green @ ''Inbox:\<newline>'' @ strings_Join (Inbox ?user') ''\<newline>'' @ reset)"
    using loop view [OF u'] by simp
  then have "\<exists>state' replies user'.
               main_loop state reqs = Inr (state', replies)
               \<and> users state' uid = Some user'
               \<and> Inbox user' = Inbox user @ map (\<lambda>req. inbox_line state (snd req)) reqs
               \<and> Receive ord state' (ViewInbox uid) =
                   Inr (state', if Inbox user' = [] then green @ ''Inbox is empty.'' @ reset
                       else green @ ''Inbox:\<newline>'' @ strings_Join (Inbox user') ''\<newline>'' @ reset)"
    by blast
  with view [OF assms(1)] show ?thesis by blast
qed

theorem ViewInbox_lines_witness:
  "Receive [] golang_store (ViewInbox 2) =
     Inr (golang_store, CHR 0x1B # ''[1;32mInbox is empty.'' @ CHR 0x1B # ''[0m'')
   \<and> (case main_loop golang_store
             [([], SendMessage 1 2 ''hi''), ([], ReplyToMessage 7 2 ''yo'')] of
        Inr (state', replies) \<Rightarrow>
          Receive [] state' (ViewInbox 2) =
            Inr (state', CHR 0x1B # ''[1;32mInbox:\<newline>Message from 'alice': hi\<newline>Reply from 'User7': yo''
                           @ CHR 0x1B # ''[0m'')
      | Inl e \<Rightarrow> False)"
proof -
  have h: "users golang_store 2 = Some \<lparr>User.ID = 2, Username = ''bob'', Inbox = []\<rparr>"
    by (simp add: golang_store_def)
  let ?reqs = "[([] :: string list, SendMessage 1 2 ''hi''), ([], ReplyToMessage 7 2 ''yo'')]"
  have all: "\<forall>req \<in> set ?reqs. \<exists>sender content.
           snd req = SendMessage sender 2 content \<or> snd req = ReplyToMessage sender 2 content"
    by simp
  note inst = ViewInbox_lines [OF h all, of "[]"]
  from inst have empty: "Receive [] golang_store (ViewInbox 2) =
     Inr (golang_store, CHR 0x1B # ''[1;32mInbox is empty.'' @ CHR 0x1B # ''[0m'')"
    by (simp add: green_def reset_def)
  have lines: "map (\<lambda>req. inbox_line golang_store (snd req)) ?reqs =
      [''Message from 'alice': hi'', ''Reply from 'User7': yo'']"
    by (simp add: inbox_line_def getUsername_def golang_store_def fmt_d_7)
  from inst obtain state' replies user' where
    loop: "main_loop golang_store ?reqs = Inr (state', replies)"
    and "users state' 2 = Some user'"
    and box: "Inbox user' = Inbox \<lparr>User.ID = 2, Username = ''bob'', Inbox = []\<rparr>
        @ map (\<lambda>req. inbox_line golang_store (snd req)) ?reqs"
    and view: "Receive [] state' (ViewInbox 2) =
       Inr (state', if Inbox user' = [] then green @ ''Inbox is empty.'' @ reset
                    else green @ ''Inbox:\<newline>'' @ strings_Join (Inbox user') ''\<newline>'' @ reset)"
    by blast
  from box have box': "Inbox user' = [''Message from 'alice': hi'', ''Reply from 'User7': yo'']"
    unfolding lines by simp
  from view have view': "Receive [] state' (ViewInbox 2) =
            Inr (state', CHR 0x1B # ''[1;32mInbox:\<newline>Message from 'alice': hi\<newline>Reply from 'User7': yo''
                           @ CHR 0x1B # ''[0m'')"
    unfolding box' by (simp add: green_def reset_def)
  have "case main_loop golang_store ?reqs of
        Inr (state', replies) \<Rightarrow>
          Receive [] state' (ViewInbox 2) =
            Inr (state', CHR 0x1B # ''[1;32mInbox:\<newline>Message from 'alice': hi\<newline>Reply from 'User7': yo''
                           @ CHR 0x1B # ''[0m'')
      | Inl e \<Rightarrow> False"
    unfolding loop using view' by simp
  with empty show ?thesis by blast
qed

subsection \<open>Like and dislike\<close>

text \<open>
  C8: for every store, post id and user id, Like post and Dislike post return the store
  as it is and answer with a confirmation; neither looks the post up.
\<close>

theorem LikePost_DislikePost_frame:
  "Receive ord state (LikePost postID userID) =
     Inr (state, green @ ''User '' @ [CHR 0x27] @ getUsername state userID @ [CHR 0x27]
            @ '' liked post '' @ fmt_d postID @ ''.'' @ reset)
   \<and> Receive ord state (DislikePost postID userID) =
     Inr (state, green @ ''User '' @ [CHR 0x27] @ getUsername state userID @ [CHR 0x27]
            @ '' disliked post '' @ fmt_d postID @ ''.'' @ reset)"
  by simp

theorem LikePost_DislikePost_frame_witness:
  "Receive [] engineActor (LikePost 7 2) =
     Inr (engineActor, CHR 0x1B # ''[1;32mUser 'User2' liked post 7.'' @ CHR 0x1B # ''[0m'')
   \<and> Receive [] golang_store (DislikePost 7 2) =
     Inr (golang_store, CHR 0x1B # ''[1;32mUser 'bob' disliked post 7.'' @ CHR 0x1B # ''[0m'')"
  using LikePost_DislikePost_frame [of "[]" engineActor 7 2]
    LikePost_DislikePost_frame [of "[]" golang_store 7 2]
  by (simp add: getUsername_def engineActor_def golang_store_def green_def reset_def
      fmt_d_7 fmt_d_2)

subsection \<open>Register user\<close>




text \<open>
  Registrations alone drive the counter to any value: \<open>n\<close> of them from the initial
  store leave it at \<open>n\<close> modulo \<open>2\<^sup>6\<^sup>4\<close>.
\<close>

lemma register_loop:
  "\<exists>state' replies. main_loop state (replicate n (ord, RegisterUser name)) = Inr (state', replies)
     \<and> nextUserID state' = nextUserID state + of_nat n"
proof (induction n arbitrary: state)
  case 0
  then show ?case by simp
next
  case (Suc n)
  let ?state1 = "state\<lparr>nextUserID := nextUserID state + 1,
            users := (users state)(nextUserID state + 1 \<mapsto>
               \<lparr>User.ID = nextUserID state + 1, Username = name, Inbox = []\<rparr>)\<rparr>"
  from Suc [of ?state1] obtain state' replies where
    loop: "main_loop ?state1 (replicate n (ord, RegisterUser name)) = Inr (state', replies)"
    and counter: "nextUserID state' = nextUserID ?state1 + of_nat n"
    by blast
  from loop counter show ?case
    by (simp add: Let_def add.assoc add.commute)
qed

lemma wrap_counter_reached:
  "\<exists>state' replies.
     main_loop engineActor (replicate 9223372036854775806 ([], RegisterUser ''alice''))
       = Inr (state', replies)
     \<and> nextUserID state' = 0x7FFFFFFFFFFFFFFE"
  using register_loop [of engineActor 9223372036854775806 "[]" "''alice''"]
  by (simp add: engineActor_def)


subsection \<open>Comment on post\<close>

lemma comment_posts_found:
  assumes "post \<in> set posts" and "Post.ID post = postID"
  shows "\<exists>posts'. comment_posts posts postID c = Some posts'"
  using assms by (induction posts) auto


lemma comment_subreddits_found:
  assumes "name \<in> set ord"
    and "m name = Some subreddit"
    and "post \<in> set (Posts subreddit)"
    and "Post.ID post = postID"
  shows "\<exists>m'. comment_subreddits m ord postID c = Some m'"
  using assms(1)
proof (induction ord)
  case Nil
  then show ?case by simp
next
  case (Cons n ord)
  show ?case
  proof (cases "n = name")
    case True
    with assms(2) comment_posts_found [OF assms(3,4), of c] show ?thesis by auto
  next
    case False
    with Cons obtain m' where "comment_subreddits m ord postID c = Some m'" by auto
    then show ?thesis by (simp split: option.splits)
  qed
qed



subsection \<open>Reply to comment\<close>

lemma reply_posts_no_user:
  assumes "users state userID = None"
  shows "reply_posts state posts postID commentID userID content \<noteq> Inr (Some posts')"
  using assms
  by (induction posts arbitrary: posts') (auto simp: Let_def split: sum.splits option.splits)

lemma reply_posts_panic:
  assumes "users state userID = None"
    and "post \<in> set posts"
    and "Post.ID post = postID"
    and "1 \<le> sint commentID"
    and "sint commentID \<le> int (length (Comments post))"
  shows "reply_posts state posts postID commentID userID content = Inl NilPointerDereference"
  using assms
proof (induction posts)
  case Nil
  then show ?case by simp
next
  case (Cons p posts)
  show ?case
  proof (cases "Post.ID p = postID \<and> 1 \<le> sint commentID
         \<and> sint commentID \<le> int (length (Comments p))")
    case True
    with Cons.prems(1) show ?thesis by (simp add: Let_def)
  next
    case False
    with Cons.prems have "post \<in> set posts" by auto
    with Cons have "reply_posts state posts postID commentID userID content = Inl NilPointerDereference"
      by simp
    with False show ?thesis by auto
  qed
qed

lemma reply_subreddits_panic:
  assumes "users state userID = None"
    and "name \<in> set ord"
    and "subreddits state name = Some subreddit"
    and "post \<in> set (Posts subreddit)"
    and "Post.ID post = postID"
    and "1 \<le> sint commentID"
    and "sint commentID \<le> int (length (Comments post))"
  shows "reply_subreddits state ord postID commentID userID content = Inl NilPointerDereference"
  using assms(2)
proof (induction ord)
  case Nil
  then show ?case by simp
next
  case (Cons n ord)
  show ?case
  proof (cases "n = name")
    case True
    with assms(3) reply_posts_panic [OF assms(1,4,5,6,7)] show ?thesis by simp
  next
    case False
    with Cons have IH: "reply_subreddits state ord postID commentID userID content = Inl NilPointerDereference"
      by simp
    show ?thesis
    proof (cases "subreddits state n")
      case None
      with IH show ?thesis by simp
    next
      case (Some s)
      show ?thesis
      proof (cases "reply_posts state (Posts s) postID commentID userID content")
        case (Inl e)
        with Some show ?thesis by (cases e) simp
      next
        case (Inr r)
        with reply_posts_no_user [OF assms(1)] have "r = None" by (cases r) auto
        with Inr Some IH show ?thesis by simp
      qed
    qed
  qed
qed

lemma hello_store_reached:
  "main_loop engineActor
     [([], RegisterUser ''alice''), ([], RegisterUser ''bob''),
      ([], CreateSubreddit 1 ''golang''), ([''golang''], CreatePost 1 ''golang'' ''hello''),
      ([''golang''], CommentOnPost 1 2 ''nice'')]
   = Inr (hello_store,
       [CHR 0x1B # ''[1;32mUser 'alice' registered successfully with ID 1.'' @ CHR 0x1B # ''[0m'',
        CHR 0x1B # ''[1;32mUser 'bob' registered successfully with ID 2.'' @ CHR 0x1B # ''[0m'',
        CHR 0x1B # ''[1;32mSubreddit 'golang' created successfully.'' @ CHR 0x1B # ''[0m'',
        CHR 0x1B # ''[1;32mUser 'alice' posted in 'golang': hello'' @ CHR 0x1B # ''[0m'',
        CHR 0x1B # ''[1;32mUser 'bob' commented on post 1: nice'' @ CHR 0x1B # ''[0m''])"
  by (simp add: engineActor_def hello_store_def golang_store_def Let_def getUsername_def
      green_def reset_def fmt_d_1 fmt_d_2)

text \<open>
  C9: Reply to comment reads the acting user's name without an existence check. Whenever
  the acting user is not registered and the loop reaches a post with the id and a comment
  index in range, the handler dereferences nil, where \<open>getUsername\<close> gives the
  placeholder and Comment on post with the same post and user succeeds under the
  placeholder name.
\<close>

theorem ReplyToComment_unregistered_panics:
  assumes "users state userID = None"
    and "name \<in> set ord"
    and "subreddits state name = Some subreddit"
    and "post \<in> set (Posts subreddit)"
    and "Post.ID post = postID"
    and "1 \<le> sint commentID"
    and "sint commentID \<le> int (length (Comments post))"
  shows "Receive ord state (ReplyToComment postID commentID userID content)
           = Inl NilPointerDereference
         \<and> getUsername state userID = ''User'' @ fmt_d userID
         \<and> (\<exists>m. Receive ord state (CommentOnPost postID userID content)
               = Inr (state\<lparr>subreddits := m\<rparr>,
                      green @ ''User '' @ [CHR 0x27] @ ''User'' @ fmt_d userID @ [CHR 0x27]
                        @ '' commented on post '' @ fmt_d postID @ '': '' @ content @ reset))"
proof -
  have "Receive ord state (ReplyToComment postID commentID userID content)
           = Inl NilPointerDereference"
    using reply_subreddits_panic [OF assms] by simp
  moreover have "getUsername state userID = ''User'' @ fmt_d userID"
    using assms(1) by (simp add: getUsername_def)
  moreover have "\<exists>m. Receive ord state (CommentOnPost postID userID content)
               = Inr (state\<lparr>subreddits := m\<rparr>,
                      green @ ''User '' @ [CHR 0x27] @ ''User'' @ fmt_d userID @ [CHR 0x27]
                        @ '' commented on post '' @ fmt_d postID @ '': '' @ content @ reset)"
  proof -
    let ?line = "''User '' @ [CHR 0x27] @ ''User'' @ fmt_d userID @ [CHR 0x27] @ '': '' @ content"
    from comment_subreddits_found
      [of name ord "subreddits state" subreddit post postID ?line, OF assms(2,3,4,5)]
    obtain m where "comment_subreddits (subreddits state) ord postID ?line = Some m" by blast
    with assms(1) have "Receive ord state (CommentOnPost postID userID content)
               = Inr (state\<lparr>subreddits := m\<rparr>,
                      green @ ''User '' @ [CHR 0x27] @ ''User'' @ fmt_d userID @ [CHR 0x27]
                        @ '' commented on post '' @ fmt_d postID @ '': '' @ content @ reset)"
      by (simp add: Let_def getUsername_def)
    then show ?thesis by blast
  qed
  ultimately show ?thesis by (intro conjI)
qed

theorem ReplyToComment_unregistered_panics_witness:
  "users hello_store 3 = None
   \<and> subreddits hello_store ''golang'' = Some \<lparr>Name = ''golang'', Users = Map.empty,
          Posts = [\<lparr>Post.ID = 1, UserID = 1, Subreddit = ''golang'', Content = ''hello'',
                     Comments = [''User 'bob': nice'']\<rparr>]\<rparr>
   \<and> Receive [''golang''] hello_store (ReplyToComment 1 1 3 ''thanks'') = Inl NilPointerDereference
   \<and> getUsername hello_store 3 = ''User3''
   \<and> (\<exists>m. Receive [''golang''] hello_store (CommentOnPost 1 3 ''thanks'')
          = Inr (hello_store\<lparr>subreddits := m\<rparr>,
                 CHR 0x1B # ''[1;32mUser 'User3' commented on post 1: thanks'' @ CHR 0x1B # ''[0m''))"
proof -
  let ?post = "\<lparr>Post.ID = 1, UserID = 1, Subreddit = ''golang'', Content = ''hello'',
                     Comments = [''User 'bob': nice'']\<rparr>"
  let ?subreddit = "\<lparr>Name = ''golang'', Users = Map.empty, Posts = [?post]\<rparr>"
  have h1: "users hello_store 3 = None"
    by (simp add: hello_store_def golang_store_def)
  have h2: "''golang'' \<in> set [''golang'']" by simp
  have h3: "subreddits hello_store ''golang'' = Some ?subreddit"
    by (simp add: hello_store_def)
  have h4: "?post \<in> set (Posts ?subreddit)" by simp
  have h5: "Post.ID ?post = 1" by simp
  have h6: "1 \<le> sint (1 :: int64)" by simp
  have h7: "sint (1 :: int64) \<le> int (length (Comments ?post))" by simp
  have d: "fmt_d 3 = ''3''" by (simp add: fmt_d_def string_of_nat_digit)
  note inst = ReplyToComment_unregistered_panics [OF h1 h2 h3 h4 h5 h6 h7, of "''thanks''"]
  from inst have a: "Receive [''golang''] hello_store (ReplyToComment 1 1 3 ''thanks'')
      = Inl NilPointerDereference"
    by (rule conjunct1)
  from inst have "getUsername hello_store 3 = ''User'' @ fmt_d 3"
    by (elim conjE)
  then have b: "getUsername hello_store 3 = ''User3''"
    unfolding d by simp
  from inst have "\<exists>m. Receive [''golang''] hello_store (CommentOnPost 1 3 ''thanks'')
          = Inr (hello_store\<lparr>subreddits := m\<rparr>,
                 green @ ''User '' @ [CHR 0x27] @ ''User'' @ fmt_d 3 @ [CHR 0x27]
                   @ '' commented on post '' @ fmt_d 1 @ '': '' @ ''thanks'' @ reset)"
    by (elim conjE)
  then have c: "\<exists>m. Receive [''golang''] hello_store (CommentOnPost 1 3 ''thanks'')
          = Inr (hello_store\<lparr>subreddits := m\<rparr>,
                 CHR 0x1B # ''[1;32mUser 'User3' commented on post 1: thanks'' @ CHR 0x1B # ''[0m'')"
    unfolding d fmt_d_1 green_def reset_def by simp
  from h1 h3 a b c show ?thesis by (intro conjI)
qed

subsection \<open>The scenario with a reply to a comment\<close>

lemma reply_posts_miss:
  assumes "\<forall>q \<in> set posts. Post.ID q \<noteq> postID"
  shows "reply_posts state posts postID commentID userID content = Inr None"
  using assms by (induction posts) auto

lemma reply_posts_hit:
  assumes "users state userID = Some user"
    and "k < length posts"
    and "Post.ID (posts ! k) = postID"
    and "\<forall>j < length posts. Post.ID (posts ! j) = postID \<longrightarrow> j = k"
    and "1 \<le> sint commentID"
    and "sint commentID \<le> int (length (Comments (posts ! k)))"
  shows "reply_posts state posts postID commentID userID content =
           Inr (Some (posts[k := (posts ! k)\<lparr>Comments := (Comments (posts ! k))
              [nat (sint commentID - 1) := Comments (posts ! k) ! nat (sint commentID - 1)
                 @ ''\<newline>Reply by '' @ [CHR 0x27] @ Username user @ [CHR 0x27]
                 @ '': '' @ content]\<rparr>]))"
  using assms(2,3,4,6)
proof (induction posts arbitrary: k)
  case Nil
  then show ?case by simp
next
  case (Cons p posts)
  show ?case
  proof (cases k)
    case 0
    with Cons.prems assms(1,5) show ?thesis by (simp add: Let_def)
  next
    case (Suc k')
    from Cons.prems(3) [rule_format, of 0] Suc have p: "Post.ID p \<noteq> postID" by auto
    have uniq: "\<forall>j < length posts. Post.ID (posts ! j) = postID \<longrightarrow> j = k'"
    proof (intro allI impI)
      fix j assume "j < length posts" "Post.ID (posts ! j) = postID"
      with Cons.prems(3) [rule_format, of "Suc j"] Suc show "j = k'" by simp
    qed
    from Cons.prems Suc have "k' < length posts" "Post.ID (posts ! k') = postID"
      "sint commentID \<le> int (length (Comments (posts ! k')))"
      by simp_all
    from Cons.IH [OF this(1,2) uniq this(3)] p Suc show ?thesis by simp
  qed
qed

lemma reply_subreddits_hit:
  assumes "name \<in> set ord"
    and "subreddits state name = Some subreddit"
    and "reply_posts state (Posts subreddit) postID commentID userID content = Inr (Some posts')"
    and "\<forall>n s. n \<noteq> name \<longrightarrow> subreddits state n = Some s \<longrightarrow> (\<forall>q \<in> set (Posts s). Post.ID q \<noteq> postID)"
  shows "reply_subreddits state ord postID commentID userID content =
           Inr (Some ((subreddits state)(name \<mapsto> subreddit\<lparr>Posts := posts'\<rparr>)))"
  using assms(1)
proof (induction ord)
  case Nil
  then show ?case by simp
next
  case (Cons n ord)
  show ?case
  proof (cases "n = name")
    case True
    with assms(2,3) show ?thesis by (simp add: fun_upd_def)
  next
    case False
    with Cons.prems have "name \<in> set ord" by simp
    then have IH: "reply_subreddits state ord postID commentID userID content =
           Inr (Some ((subreddits state)(name \<mapsto> subreddit\<lparr>Posts := posts'\<rparr>)))"
      by (rule Cons.IH)
    show ?thesis
    proof (cases "subreddits state n")
      case None
      with IH show ?thesis by (simp add: fun_upd_def)
    next
      case (Some s)
      with assms(4) False have "\<forall>q \<in> set (Posts s). Post.ID q \<noteq> postID" by blast
      from reply_posts_miss [OF this] Some IH show ?thesis by (simp add: fun_upd_def)
    qed
  qed
qed

lemma ReplyToComment_appends:
  assumes "users state userID = Some user"
    and "name \<in> set ord"
    and "subreddits state name = Some subreddit"
    and "k < length (Posts subreddit)"
    and "Posts subreddit ! k = post"
    and "Post.ID post = postID"
    and "\<forall>j < length (Posts subreddit). Post.ID (Posts subreddit ! j) = postID \<longrightarrow> j = k"
    and "\<forall>n s. n \<noteq> name \<longrightarrow> subreddits state n = Some s \<longrightarrow> (\<forall>q \<in> set (Posts s). Post.ID q \<noteq> postID)"
    and "1 \<le> sint commentID"
    and "sint commentID \<le> int (length (Comments post))"
  shows "Receive ord state (ReplyToComment postID commentID userID content) =
           Inr (state\<lparr>subreddits := (subreddits state)(name \<mapsto> subreddit\<lparr>Posts :=
                  (Posts subreddit)[k := post\<lparr>Comments := (Comments post)
                     [nat (sint commentID - 1) := Comments post ! nat (sint commentID - 1)
                        @ ''\<newline>Reply by '' @ [CHR 0x27] @ Username user @ [CHR 0x27]
                        @ '': '' @ content]\<rparr>]\<rparr>)\<rparr>,
                green @ ''User '' @ [CHR 0x27] @ Username user @ [CHR 0x27]
                  @ '' replied to comment '' @ fmt_d commentID @ '' on post '' @ fmt_d postID
                  @ '': '' @ content @ reset)"
proof -
  from assms(5,6,10) have a: "Post.ID (Posts subreddit ! k) = postID"
    and b: "sint commentID \<le> int (length (Comments (Posts subreddit ! k)))"
    by simp_all
  note hit = reply_posts_hit [OF assms(1,4) a assms(7,9) b, of content]
  from reply_subreddits_hit [OF assms(2,3) hit assms(8)] assms(1,5)
  show ?thesis by (simp add: Let_def)
qed

text \<open>
  The scenario of the specification: bob, a registered user, replies to comment 1 of
  post 1.
\<close>

lemma scenario_registered:
  "Receive [''golang''] hello_store (ReplyToComment 1 1 2 ''thanks'')
   = Inr (hello_store\<lparr>subreddits := [''golang'' \<mapsto> \<lparr>Name = ''golang'', Users = Map.empty,
               Posts = [\<lparr>Post.ID = 1, UserID = 1, Subreddit = ''golang'', Content = ''hello'',
                  Comments = [''User 'bob': nice\<newline>Reply by 'bob': thanks'']\<rparr>]\<rparr>]\<rparr>,
          CHR 0x1B # ''[1;32mUser 'bob' replied to comment 1 on post 1: thanks'' @ CHR 0x1B # ''[0m'')"
  by (simp add: hello_store_def golang_store_def Let_def green_def reset_def fmt_d_1)

text \<open>
  C2: the claim promises the appended reply line for every post and every comment index
  in range. With a registered acting user the code does that (\<open>ReplyToComment_appends\<close>,
  \<open>scenario_registered\<close>). With an acting user that is not registered the handler
  panics instead: in the scenario of the specification, with user 3 replying in place of
  bob, the first five requests are answered and the reply to comment 1 dereferences nil,
  so the request is never answered and the comment stays as it was.
\<close>

theorem ReplyToComment_scenario_unregistered:
  "main_loop engineActor
     [([], RegisterUser ''alice''), ([], RegisterUser ''bob''),
      ([], CreateSubreddit 1 ''golang''), ([''golang''], CreatePost 1 ''golang'' ''hello''),
      ([''golang''], CommentOnPost 1 2 ''nice''),
      ([''golang''], ReplyToComment 1 1 3 ''thanks'')]
   = Inl NilPointerDereference
   \<and> Receive [''golang''] hello_store (ReplyToComment 1 1 3 ''thanks'') = Inl NilPointerDereference"
  by (simp add: engineActor_def hello_store_def golang_store_def Let_def getUsername_def
      green_def reset_def fmt_d_1 fmt_d_2)

subsection \<open>Requests of an unregistered user\<close>




end
